theory Spec2Isabelle
  imports Complex_Main "HOL-Library.Word"
begin

section \<open>The Chrono multicore collision system: the class interface\<close>

text \<open>
  The development embeds the class \<^verbatim>\<open>ChCollisionSystemChrono\<close> as declared in
  \<^verbatim>\<open>src/chrono/collision/ChCollisionSystemChrono.h\<close>. The header defines
  \<^verbatim>\<open>Clear\<close> and \<^verbatim>\<open>ReportProximities\<close> inline, with empty bodies, and declares
  the constructor and the active bounding box's setter and getter; the bodies of
  these live in a translation unit that is not part of the sources at hand.
\<close>

subsection \<open>Vectors\<close>

text \<open>
  \<^verbatim>\<open>ChVector<>\<close> (the interface's vector of three doubles) and \<^verbatim>\<open>real3\<close> (the
  vector type of the private members). Coordinates are taken as real numbers; no
  statement below performs arithmetic on them.
\<close>

datatype ChVector = ChVector real real real

datatype real3 = Real3 real real real

subsection \<open>The object state\<close>

text \<open>
  The private data members, in the order of the header. The classes
  \<^verbatim>\<open>ChCollisionData\<close>, \<^verbatim>\<open>ChBroadphase\<close>, \<^verbatim>\<open>ChNarrowphase\<close>,
  \<^verbatim>\<open>ChAABBGenerator\<close> and \<^verbatim>\<open>ChTimer<>\<close> are declared in headers outside the
  sources, so their contents are type parameters: \<open>'d\<close> is the data store that
  \<^verbatim>\<open>data_manager\<close> points to, \<open>'b\<close>, \<open>'n\<close> and \<open>'g\<close> are the broadphase, narrowphase and
  AABB generator objects (they hold the configuration), \<open>'t\<close> is a timer.
  \<^verbatim>\<open>std::vector<char> body_active\<close> is a list of bytes.
\<close>

record ('d, 'b, 'n, 'g, 't) ChCollisionSystemChrono =
  data_manager :: 'd
  broadphase :: 'b
  narrowphase :: 'n
  aabb_generator :: 'g
  body_active :: "8 word list"
  use_aabb_active :: bool
  aabb_min :: real3
  aabb_max :: real3
  m_timer_broad :: 't
  m_timer_narrow :: 't

subsection \<open>Calls and what they hand back\<close>

text \<open>
  A call of a member function either raises a fault or returns. On return the caller
  gets the value of the declared return type (\<open>RVoid\<close> for a \<^verbatim>\<open>void\<close> function,
  \<open>RBool b\<close> for a \<^verbatim>\<open>bool\<close> one), the object after the call unless the member
  function is \<^verbatim>\<open>const\<close>, and the objects passed by non-const reference or pointer.
\<close>

datatype retval = RVoid | RBool bool

datatype 'a outcome = Fault | Return 'a

text \<open>Two calls in sequence: a fault of the first one ends the sequence.\<close>

fun then_call :: "'a outcome \<Rightarrow> ('a \<Rightarrow> 'b outcome) \<Rightarrow> 'b outcome" where
  "then_call Fault f = Fault"
| "then_call (Return a) f = f a"

subsection \<open>The member functions defined in the header\<close>

text \<open>\<^verbatim>\<open>virtual void Clear(void) override {}\<close>\<close>

definition Clear ::
  "('d, 'b, 'n, 'g, 't) ChCollisionSystemChrono \<Rightarrow>
   (retval \<times> ('d, 'b, 'n, 'g, 't) ChCollisionSystemChrono) outcome" where
  "Clear sys = Return (RVoid, sys)"

text \<open>
  \<^verbatim>\<open>virtual void ReportProximities(ChProximityContainer* mproximitycontainer) override {}\<close>.
  The container behind the pointer is the third component of the result.
\<close>

definition ReportProximities ::
  "('d, 'b, 'n, 'g, 't) ChCollisionSystemChrono \<Rightarrow> 'c \<Rightarrow>
   (retval \<times> ('d, 'b, 'n, 'g, 't) ChCollisionSystemChrono \<times> 'c) outcome" where
  "ReportProximities sys mproximitycontainer = Return (RVoid, sys, mproximitycontainer)"

subsection \<open>The active bounding box: constructor, setter and getter\<close>

text \<open>
  Modelled from the spec: the conversions between \<^verbatim>\<open>ChVector<>\<close> and
  \<^verbatim>\<open>real3\<close>, which no source file at hand declares. The spec does not distinguish the
  two vector types, so a conversion copies the three coordinates.
\<close>

fun to_real3 :: "ChVector \<Rightarrow> real3" where
  "to_real3 (ChVector a b c) = Real3 a b c"

text \<open>
  Modelled from the spec: the inverse copy, from \<^verbatim>\<open>real3\<close> to \<^verbatim>\<open>ChVector<>\<close>, equally
  missing from the sources.
\<close>

fun to_ChVector :: "real3 \<Rightarrow> ChVector" where
  "to_ChVector (Real3 a b c) = ChVector a b c"

text \<open>
  Modelled from the spec: the constructor \<^verbatim>\<open>ChCollisionSystemChrono()\<close>, whose body
  is missing from the sources. The header documents the monitoring of the active
  bounding box as off by default (``default: false''), and the spec has the active
  state true unless the feature is enabled. What the constructor puts into the other
  members is not stated, so each is a parameter.
\<close>

definition ChCollisionSystemChrono_new ::
  "'d \<Rightarrow> 'b \<Rightarrow> 'n \<Rightarrow> 'g \<Rightarrow> 8 word list \<Rightarrow> real3 \<Rightarrow> real3 \<Rightarrow> 't \<Rightarrow> 't \<Rightarrow>
   ('d, 'b, 'n, 'g, 't) ChCollisionSystemChrono" where
  "ChCollisionSystemChrono_new d b n g act lo hi tb tn =
     \<lparr>data_manager = d, broadphase = b, narrowphase = n, aabb_generator = g,
      body_active = act, use_aabb_active = False, aabb_min = lo, aabb_max = hi,
      m_timer_broad = tb, m_timer_narrow = tn\<rparr>"

text \<open>
  Modelled from the spec: the body of
  \<^verbatim>\<open>void EnableActiveBoundingBox(const ChVector<>& aabbmin, const ChVector<>& aabbmax)\<close>,
  missing from the sources. Per the spec's configuration surface (``active bounding box
  (min, max): enables body freezing outside this region'') the call records the two
  corners and switches the feature on.
\<close>

definition EnableActiveBoundingBox ::
  "('d, 'b, 'n, 'g, 't) ChCollisionSystemChrono \<Rightarrow> ChVector \<Rightarrow> ChVector \<Rightarrow>
   (retval \<times> ('d, 'b, 'n, 'g, 't) ChCollisionSystemChrono) outcome" where
  "EnableActiveBoundingBox sys aabbmin aabbmax =
     Return (RVoid, sys\<lparr>aabb_min := to_real3 aabbmin, aabb_max := to_real3 aabbmax,
                         use_aabb_active := True\<rparr>)"

text \<open>
  Modelled from the spec: the body of
  \<^verbatim>\<open>bool GetActiveBoundingBox(ChVector<>& aabbmin, ChVector<>& aabbmax) const\<close>,
  missing from the sources. Per the spec's query surface (``return current enablement
  and bounds'') and the header (``The return value indicates whether or not the active
  box feature is enabled'') it returns the flag and writes the stored corners into the
  two reference arguments, which are the second and third component of the result.
\<close>

definition GetActiveBoundingBox ::
  "('d, 'b, 'n, 'g, 't) ChCollisionSystemChrono \<Rightarrow> (retval \<times> ChVector \<times> ChVector) outcome" where
  "GetActiveBoundingBox sys =
     Return (RBool (use_aabb_active sys), to_ChVector (aabb_min sys), to_ChVector (aabb_max sys))"

section \<open>Properties\<close>

text \<open>
  Claim C10. \<^verbatim>\<open>Clear\<close> and \<^verbatim>\<open>ReportProximities\<close> do nothing: for every state of
  the collision system, either call returns with the whole object (data store,
  broadphase, narrowphase and generator configuration, active flags, active box and
  both timers) as it was before the call, and \<^verbatim>\<open>ReportProximities\<close> also leaves the
  proximity container it is given as it was.
\<close>

theorem Clear_ReportProximities_noop:
  "Clear sys = Return (RVoid, sys) \<and>
   ReportProximities sys mproximitycontainer = Return (RVoid, sys, mproximitycontainer) \<and>
   then_call (Clear sys) (\<lambda>(r, sys'). ReportProximities sys' mproximitycontainer)
     = Return (RVoid, sys, mproximitycontainer)"
proof -
  have clear: "Clear sys = Return (RVoid, sys)"
    by (simp add: Clear_def)
  have report: "ReportProximities s mproximitycontainer = Return (RVoid, s, mproximitycontainer)"
    for s :: "('a, 'b, 'c, 'd, 'e) ChCollisionSystemChrono"
    by (simp add: ReportProximities_def)
  have both: "then_call (Clear sys) (\<lambda>(r, sys'). ReportProximities sys' mproximitycontainer)
     = Return (RVoid, sys, mproximitycontainer)"
    unfolding clear by (simp add: report)
  from clear report [of sys] both show ?thesis
    by simp
qed

text \<open>
  Claim C9. On a freshly constructed collision system the active bounding box is
  disabled, so \<^verbatim>\<open>GetActiveBoundingBox\<close> returns \<^verbatim>\<open>false\<close>. After a call
  \<^verbatim>\<open>EnableActiveBoundingBox(min, max)\<close> on any object, also one on which the box had
  been enabled with other corners before, \<^verbatim>\<open>GetActiveBoundingBox\<close> returns \<^verbatim>\<open>true\<close>
  and yields exactly the \<open>min\<close> and \<open>max\<close> of the latest call.
\<close>

theorem GetActiveBoundingBox_after_Enable:
  "\<not> use_aabb_active (ChCollisionSystemChrono_new d b n g act lo hi tb tn) \<and>
   GetActiveBoundingBox (ChCollisionSystemChrono_new d b n g act lo hi tb tn)
     = Return (RBool False, to_ChVector lo, to_ChVector hi) \<and>
   then_call (EnableActiveBoundingBox sys aabbmin aabbmax)
     (\<lambda>(r, sys'). GetActiveBoundingBox sys') = Return (RBool True, aabbmin, aabbmax) \<and>
   then_call (EnableActiveBoundingBox sys oldmin oldmax)
     (\<lambda>(r, sys'). then_call (EnableActiveBoundingBox sys' aabbmin aabbmax)
        (\<lambda>(r, sys''). GetActiveBoundingBox sys'')) = Return (RBool True, aabbmin, aabbmax)"
proof -
  have copy: "to_ChVector (to_real3 v) = v" for v
    by (cases v) simp
  have disabled: "\<not> use_aabb_active (ChCollisionSystemChrono_new d b n g act lo hi tb tn)"
    by (simp add: ChCollisionSystemChrono_new_def)
  have fresh: "GetActiveBoundingBox (ChCollisionSystemChrono_new d b n g act lo hi tb tn)
     = Return (RBool False, to_ChVector lo, to_ChVector hi)"
    by (simp add: GetActiveBoundingBox_def ChCollisionSystemChrono_new_def)
  have once: "then_call (EnableActiveBoundingBox sys aabbmin aabbmax)
     (\<lambda>(r, sys'). GetActiveBoundingBox sys') = Return (RBool True, aabbmin, aabbmax)"
    by (simp add: EnableActiveBoundingBox_def GetActiveBoundingBox_def copy)
  have twice: "then_call (EnableActiveBoundingBox sys oldmin oldmax)
     (\<lambda>(r, sys'). then_call (EnableActiveBoundingBox sys' aabbmin aabbmax)
        (\<lambda>(r, sys''). GetActiveBoundingBox sys'')) = Return (RBool True, aabbmin, aabbmax)"
    by (simp add: EnableActiveBoundingBox_def GetActiveBoundingBox_def copy)
  from disabled fresh once twice show ?thesis by simp
qed

end
